theory Spec2Isabelle
  imports Complex_Main "HOL-Library.AList"
begin

section \<open>Conversation memory: data model\<close>

text \<open>
  Embedding of \<^verbatim>\<open>backend/app/agents/memory/conversation_memory.py\<close>.

  Conventions of the embedding:
  \<^item> a \<^verbatim>\<open>UUID\<close> is an opaque key with equality, here a natural number;
  \<^item> a \<^verbatim>\<open>datetime\<close> is the number of microseconds since the epoch, an unbounded
    integer; \<^verbatim>\<open>datetime.utcnow()\<close> is a clock reading passed in as \<open>now\<close>;
    \<^verbatim>\<open>.isoformat()\<close> is an injective rendering and is left to the caller, so the
    fields that hold rendered timestamps hold the timestamp itself;
  \<^item> a value of type \<^verbatim>\<open>Any\<close> is a \<open>pyval\<close>; Python floats are idealised as rationals;
  \<^item> a \<^verbatim>\<open>str\<close> is the list of its UTF-8 bytes; UTF-8 is self-synchronising, so one
    string occurs in another as a run of code points exactly when its bytes occur as a run
    of bytes; the built-in \<^verbatim>\<open>str.lower()\<close>, with its Unicode case tables, is not part of
    the program and is a parameter \<open>str_lower\<close> of the functions that call it;
  \<^item> a \<^verbatim>\<open>dict\<close> is an association list in insertion order;
  \<^item> \<^verbatim>\<open>raise\<close> is the left injection of a sum; logging is not modelled.
\<close>

type_synonym uuid = nat
type_synonym datetime = int

datatype pyval =
    PNone
  | PBool bool
  | PInt int
  | PFloat rat
  | PStr string
  | PList "pyval list"
  | PDict "(string \<times> pyval) list"

type_synonym pydict = "(string \<times> pyval) list"

datatype exn =
    ValueError uuid    \<comment> \<open>\<^verbatim>\<open>ValueError(f"Session {session_id} not found ...")\<close>\<close>
  | KeyError uuid      \<comment> \<open>a dictionary indexed at a missing session id\<close>
  | ValidationError    \<comment> \<open>a pydantic model built from a value outside a \<^verbatim>\<open>Literal\<close> field\<close>
  | AgentFailure string  \<comment> \<open>any \<^verbatim>\<open>Exception\<close> raised by a remote agent call, with \<^verbatim>\<open>str(e)\<close>\<close>

datatype DifficultyLevel = BEGINNER | INTERMEDIATE | ADVANCED

fun difficulty_value :: "DifficultyLevel \<Rightarrow> string" where
  "difficulty_value BEGINNER = ''beginner''"
| "difficulty_value INTERMEDIATE = ''intermediate''"
| "difficulty_value ADVANCED = ''advanced''"

record InteractionMemory =
  timestamp :: datetime
  question :: "string option"
  answer :: "string option"
  evaluation :: "pydict option"
  feedback :: "string option"
  context_data :: "pydict option"
  question_type :: string
  topics_covered :: "string list"

text \<open>
  The dictionary built by \<^verbatim>\<open>_summarize_interactions\<close>. \<^verbatim>\<open>list(set(...))\<close> has no
  specified order, so the two de-duplicated lists are sets. The empty dictionary \<^verbatim>\<open>{}\<close>
  (the initial \<^verbatim>\<open>context_summary\<close>, and the summary of an empty slice) is \<open>None\<close>.
\<close>

record summary =
  summarized_interactions :: nat
  time_period_start :: datetime
  time_period_end :: datetime
  topics_discussed :: "string set"
  question_types :: "string set"
  evaluation_count :: nat

record SessionMemory =
  session_id :: uuid
  topic :: string
  difficulty :: DifficultyLevel
  start_time :: datetime
  interactions :: "InteractionMemory list"
  current_question :: "string option"
  covered_topics :: "string list"
  performance_trends :: "pydict list"
  context_summary :: "summary option"

text \<open>One entry of \<^verbatim>\<open>performance_cache[session_id]\<close>.\<close>

record PerformanceSample =
  ps_timestamp :: datetime
  ps_evaluation :: pydict
  ps_question_type :: string

record ConversationMemory =
  sessions :: "(uuid \<times> SessionMemory) list"
  max_memory_hours :: int
  max_interactions_per_session :: int
  performance_cache :: "(uuid \<times> PerformanceSample list) list"

text \<open>\<^verbatim>\<open>ConversationMemory.__init__\<close>, defaults 24 and 100.\<close>

definition init_memory :: "int \<Rightarrow> int \<Rightarrow> ConversationMemory" where
  "init_memory hours maxi =
     \<lparr>sessions = [], max_memory_hours = hours,
      max_interactions_per_session = maxi, performance_cache = []\<rparr>"

subsection \<open>Python primitives\<close>

text \<open>\<^verbatim>\<open>xs[i:]\<close> and \<^verbatim>\<open>xs[:j]\<close> for an integer bound: a negative bound counts from the
  end, and every bound is clamped to the list.\<close>

definition slice_from :: "'a list \<Rightarrow> int \<Rightarrow> 'a list" where
  "slice_from xs i =
     (let n = int (length xs);
          start = (if i < 0 then max (n + i) 0 else min i n)
      in drop (nat start) xs)"

definition slice_to :: "'a list \<Rightarrow> int \<Rightarrow> 'a list" where
  "slice_to xs j =
     (let n = int (length xs);
          stop = (if j < 0 then max (n + j) 0 else min j n)
      in take (nat stop) xs)"

text \<open>Truthiness of optional strings, lists and dictionaries: \<^verbatim>\<open>None\<close> and the empty
  value are false.\<close>

fun truthy :: "'a list option \<Rightarrow> bool" where
  "truthy None = False"
| "truthy (Some xs) = (xs \<noteq> [])"

text \<open>What \<^verbatim>\<open>str.lower()\<close> computes on ASCII text: the letters A to Z are folded and
  every other character is kept. It instantiates the parameter \<open>str_lower\<close> in the
  examples, whose strings are ASCII.\<close>

definition lower_char :: "char \<Rightarrow> char" where
  "lower_char c =
     (let n = (of_char c :: nat) in if 65 \<le> n \<and> n \<le> 90 then char_of (n + 32) else c)"

definition ascii_lower :: "string \<Rightarrow> string" where
  "ascii_lower s = map lower_char s"

text \<open>\<^verbatim>\<open>a in b\<close> on strings: \<open>a\<close> occurs in \<open>b\<close> as a contiguous substring.\<close>

fun starts_with :: "string \<Rightarrow> string \<Rightarrow> bool" where
  "starts_with [] b = True"
| "starts_with (x # a) [] = False"
| "starts_with (x # a) (y # b) = (x = y \<and> starts_with a b)"

fun str_in :: "string \<Rightarrow> string \<Rightarrow> bool" where
  "str_in a [] = (a = [])"
| "str_in a (y # b) = (starts_with a (y # b) \<or> str_in a b)"

section \<open>Conversation memory: operations\<close>

text \<open>\<^verbatim>\<open>initialize_session\<close>: the dataclass defaults fill the remaining fields.\<close>

definition initialize_session ::
  "ConversationMemory \<Rightarrow> datetime \<Rightarrow> uuid \<Rightarrow> string \<Rightarrow> DifficultyLevel \<Rightarrow> ConversationMemory" where
  "initialize_session m now sid tp diff =
     m\<lparr>sessions := AList.update sid
         \<lparr>session_id = sid, topic = tp, difficulty = diff, start_time = now,
          interactions = [], current_question = None, covered_topics = [],
          performance_trends = [], context_summary = None\<rparr> (sessions m)\<rparr>"

text \<open>\<^verbatim>\<open>_summarize_interactions\<close>.\<close>

definition summarize_interactions :: "InteractionMemory list \<Rightarrow> summary option" where
  "summarize_interactions xs =
     (case xs of
        [] \<Rightarrow> None
      | x # _ \<Rightarrow> Some
          \<lparr>summarized_interactions = length xs,
           time_period_start = timestamp x,
           time_period_end = timestamp (last xs),
           topics_discussed = set (concat (map topics_covered xs)),
           question_types = set (filter (\<lambda>q. q \<noteq> []) (map question_type xs)),
           evaluation_count = length (filter (\<lambda>i. truthy (evaluation i)) xs)\<rparr>)"

text \<open>\<^verbatim>\<open>_manage_memory_size\<close>, on the session record it reads and writes.\<close>

definition manage_memory_size :: "int \<Rightarrow> SessionMemory \<Rightarrow> SessionMemory" where
  "manage_memory_size maxi s =
     (if int (length (interactions s)) > maxi then
        (let keep_count = maxi div 2;
             older_interactions = slice_to (interactions s) (- keep_count)
         in s\<lparr>context_summary := summarize_interactions older_interactions,
              interactions := slice_from (interactions s) (- keep_count)\<rparr>)
      else s)"

text \<open>The keyword arguments of \<^verbatim>\<open>add_interaction\<close> after \<^verbatim>\<open>session_id\<close>.\<close>

record interaction_args =
  arg_question :: "string option"
  arg_answer :: "string option"
  arg_evaluation :: "pydict option"
  arg_feedback :: "string option"
  arg_context :: "pydict option"
  arg_question_type :: string
  arg_expected_topics :: "string list option"
  arg_timestamp :: "datetime option"

text \<open>The \<^verbatim>\<open>InteractionMemory(...)\<close> that \<^verbatim>\<open>add_interaction\<close> constructs. A
  \<^verbatim>\<open>datetime\<close> is always true, so \<^verbatim>\<open>timestamp or datetime.utcnow()\<close> takes the clock
  only when no timestamp is passed.\<close>

definition new_interaction :: "datetime \<Rightarrow> interaction_args \<Rightarrow> InteractionMemory" where
  "new_interaction now a =
     \<lparr>timestamp = (case arg_timestamp a of Some t \<Rightarrow> t | None \<Rightarrow> now),
      question = arg_question a,
      answer = arg_answer a,
      evaluation = arg_evaluation a,
      feedback = arg_feedback a,
      context_data = arg_context a,
      question_type = arg_question_type a,
      topics_covered = (if truthy (arg_expected_topics a) then the (arg_expected_topics a) else [])\<rparr>"

text \<open>The loop \<^verbatim>\<open>for topic in expected_topics: if topic not in covered: append\<close>.\<close>

fun extend_topics :: "string list \<Rightarrow> string list \<Rightarrow> string list" where
  "extend_topics covered [] = covered"
| "extend_topics covered (t # ts) =
     extend_topics (if t \<in> set covered then covered else covered @ [t]) ts"

text \<open>\<^verbatim>\<open>self.performance_cache[session_id].append(sample)\<close> on a
  \<^verbatim>\<open>defaultdict(list)\<close>: a missing key starts from the empty list.\<close>

definition cache_append ::
  "(uuid \<times> PerformanceSample list) list \<Rightarrow> uuid \<Rightarrow> PerformanceSample
     \<Rightarrow> (uuid \<times> PerformanceSample list) list" where
  "cache_append pc sid p =
     AList.update sid ((case map_of pc sid of None \<Rightarrow> [] | Some ps \<Rightarrow> ps) @ [p]) pc"

definition add_interaction ::
  "ConversationMemory \<Rightarrow> datetime \<Rightarrow> uuid \<Rightarrow> interaction_args \<Rightarrow> exn + ConversationMemory" where
  "add_interaction m now sid a =
     (case map_of (sessions m) sid of
        None \<Rightarrow> Inl (ValueError sid)
      | Some session_memory \<Rightarrow>
          (let interaction = new_interaction now a;
               s1 = session_memory\<lparr>interactions := interactions session_memory @ [interaction]\<rparr>;
               s2 = (if truthy (arg_question a)
                     then s1\<lparr>current_question := arg_question a\<rparr> else s1);
               s3 = (if truthy (arg_expected_topics a)
                     then s2\<lparr>covered_topics :=
                            extend_topics (covered_topics s2) (the (arg_expected_topics a))\<rparr>
                     else s2);
               pc = (if truthy (arg_evaluation a)
                     then cache_append (performance_cache m) sid
                            \<lparr>ps_timestamp = timestamp interaction,
                             ps_evaluation = the (arg_evaluation a),
                             ps_question_type = arg_question_type a\<rparr>
                     else performance_cache m);
               s4 = manage_memory_size (max_interactions_per_session m) s3
           in Inr (m\<lparr>sessions := AList.update sid s4 (sessions m), performance_cache := pc\<rparr>)))"

text \<open>A sequence of \<^verbatim>\<open>add_interaction\<close> calls on one session, each with its own clock
  reading; the first exception ends the sequence.\<close>

fun add_interactions ::
  "ConversationMemory \<Rightarrow> uuid \<Rightarrow> (datetime \<times> interaction_args) list \<Rightarrow> exn + ConversationMemory" where
  "add_interactions m sid [] = Inr m"
| "add_interactions m sid ((now, a) # cs) =
     (case add_interaction m now sid a of
        Inl e \<Rightarrow> Inl e
      | Inr m' \<Rightarrow> add_interactions m' sid cs)"

text \<open>The defaults of the keyword arguments.\<close>

definition default_args :: interaction_args where
  "default_args =
     \<lparr>arg_question = None, arg_answer = None, arg_evaluation = None, arg_feedback = None,
      arg_context = None, arg_question_type = ''general'', arg_expected_topics = None,
      arg_timestamp = None\<rparr>"

text \<open>The session record of \<open>sid\<close> after a call that may have raised.\<close>

definition session_of :: "exn + ConversationMemory \<Rightarrow> uuid \<Rightarrow> SessionMemory option" where
  "session_of r sid = (case r of Inl e \<Rightarrow> None | Inr m \<Rightarrow> map_of (sessions m) sid)"

subsection \<open>Queries\<close>

record recent_entry =
  re_question :: "string option"
  re_answer :: "string option"
  re_question_type :: string
  re_timestamp :: datetime

text \<open>\<^verbatim>\<open>_get_recent_interactions\<close>; the caller has checked that the session exists.\<close>

definition get_recent_interactions :: "SessionMemory \<Rightarrow> int \<Rightarrow> recent_entry list" where
  "get_recent_interactions s limit =
     map (\<lambda>i. \<lparr>re_question = question i, re_answer = answer i,
                re_question_type = question_type i, re_timestamp = timestamp i\<rparr>)
       (if interactions s \<noteq> [] then slice_from (interactions s) (- limit) else [])"

text \<open>\<^verbatim>\<open>isinstance(value, (int, float))\<close> and the number it denotes; \<^verbatim>\<open>bool\<close> is a
  subclass of \<^verbatim>\<open>int\<close>.\<close>

fun numeric :: "pyval \<Rightarrow> rat option" where
  "numeric (PInt i) = Some (of_int i)"
| "numeric (PFloat r) = Some r"
| "numeric (PBool b) = Some (if b then 1 else 0)"
| "numeric v = None"

text \<open>\<^verbatim>\<open>s.endswith(suf)\<close>.\<close>

definition ends_with :: "string \<Rightarrow> string \<Rightarrow> bool" where
  "ends_with s suf = (length suf \<le> length s \<and> drop (length s - length suf) s = suf)"

text \<open>\<^verbatim>\<open>d[k].append(v)\<close> on a \<^verbatim>\<open>defaultdict(list)\<close> and \<^verbatim>\<open>d[k] += 1\<close> on a
  \<^verbatim>\<open>defaultdict(int)\<close>.\<close>

definition dict_append :: "(string \<times> 'a list) list \<Rightarrow> string \<Rightarrow> 'a \<Rightarrow> (string \<times> 'a list) list" where
  "dict_append d k v = AList.update k ((case map_of d k of None \<Rightarrow> [] | Some vs \<Rightarrow> vs) @ [v]) d"

definition dict_incr :: "(string \<times> nat) list \<Rightarrow> string \<Rightarrow> (string \<times> nat) list" where
  "dict_incr d k = AList.update k ((case map_of d k of None \<Rightarrow> 0 | Some c \<Rightarrow> c) + 1) d"

record performance_summary =
  total_evaluations :: nat
  average_scores :: "(string \<times> rat) list"
  recent_trend :: string

text \<open>\<^verbatim>\<open>_get_performance_summary\<close>; \<open>None\<close> is the empty dictionary.\<close>

definition collect_scores :: "PerformanceSample list \<Rightarrow> (string \<times> rat list) list" where
  "collect_scores performance_data =
     foldl (\<lambda>total_scores data.
        foldl (\<lambda>ts (key, v).
            (case numeric v of
               Some x \<Rightarrow> if ends_with key ''_score'' then dict_append ts key x else ts
             | None \<Rightarrow> ts))
          total_scores (ps_evaluation data))
       [] performance_data"

definition get_performance_summary :: "ConversationMemory \<Rightarrow> uuid \<Rightarrow> performance_summary option" where
  "get_performance_summary m sid =
     (case map_of (performance_cache m) sid of
        None \<Rightarrow> None
      | Some performance_data \<Rightarrow>
          if performance_data = [] then None
          else Some
            \<lparr>total_evaluations = length performance_data,
             average_scores =
               map (\<lambda>(key, scores). (key, sum_list scores / of_nat (length scores)))
                 (collect_scores performance_data),
             recent_trend = (if length performance_data > 1 then ''improving'' else ''initial'')\<rparr>)"

datatype conversation_flow =
    NoData
  | Flow (total_interactions: nat) (question_types_used: "(string \<times> nat) list")
      (flow_diversity: nat) (progression: "string list")

text \<open>\<^verbatim>\<open>_analyze_conversation_flow\<close>.\<close>

definition analyze_conversation_flow :: "SessionMemory \<Rightarrow> conversation_flow" where
  "analyze_conversation_flow s =
     (if interactions s = [] then NoData
      else
        (let qtypes = filter (\<lambda>q. q \<noteq> []) (map question_type (interactions s))
         in Flow (length (interactions s))
              (foldl dict_incr [] qtypes)
              (length (remdups qtypes))
              (if length qtypes \<ge> 5 then slice_from qtypes (- 5) else qtypes)))"

record session_context =
  ctx_session_id :: uuid
  ctx_topic :: string
  ctx_difficulty :: string
  ctx_start_time :: datetime
  ctx_current_question :: "string option"
  ctx_covered_topics :: "string list"
  interaction_count :: nat
  recent_interactions :: "recent_entry list"
  ctx_performance_summary :: "performance_summary option"
  conversation_flow :: conversation_flow

definition get_session_context :: "ConversationMemory \<Rightarrow> uuid \<Rightarrow> exn + session_context" where
  "get_session_context m sid =
     (case map_of (sessions m) sid of
        None \<Rightarrow> Inl (ValueError sid)
      | Some session_memory \<Rightarrow> Inr
          \<lparr>ctx_session_id = sid,
           ctx_topic = topic session_memory,
           ctx_difficulty = difficulty_value (difficulty session_memory),
           ctx_start_time = start_time session_memory,
           ctx_current_question = current_question session_memory,
           ctx_covered_topics = covered_topics session_memory,
           interaction_count = length (interactions session_memory),
           recent_interactions = get_recent_interactions session_memory 5,
           ctx_performance_summary = get_performance_summary m sid,
           conversation_flow = analyze_conversation_flow session_memory\<rparr>)"

record history_entry =
  he_timestamp :: datetime
  he_question :: "string option"
  he_answer :: "string option"
  he_feedback :: "string option"
  he_question_type :: string
  he_topics_covered :: "string list"
  he_evaluation :: "pydict option"    \<comment> \<open>\<open>None\<close>: the entry has no \<^verbatim>\<open>"evaluation"\<close> key\<close>

definition history_entry_of :: "bool \<Rightarrow> InteractionMemory \<Rightarrow> history_entry" where
  "history_entry_of include_evaluations i =
     \<lparr>he_timestamp = timestamp i, he_question = question i, he_answer = answer i,
      he_feedback = feedback i, he_question_type = question_type i,
      he_topics_covered = topics_covered i,
      he_evaluation = (if include_evaluations \<and> truthy (evaluation i) then evaluation i else None)\<rparr>"

text \<open>\<^verbatim>\<open>get_conversation_history\<close>: \<^verbatim>\<open>if limit:\<close> is false for \<^verbatim>\<open>None\<close> and for 0.\<close>

definition get_conversation_history ::
  "ConversationMemory \<Rightarrow> uuid \<Rightarrow> int option \<Rightarrow> bool \<Rightarrow> exn + history_entry list" where
  "get_conversation_history m sid limit include_evaluations =
     (case map_of (sessions m) sid of
        None \<Rightarrow> Inr []
      | Some session_memory \<Rightarrow>
          (let xs = (case limit of
                       None \<Rightarrow> interactions session_memory
                     | Some l \<Rightarrow> if l \<noteq> 0 then slice_from (interactions session_memory) (- l)
                                 else interactions session_memory)
           in Inr (map (history_entry_of include_evaluations) xs)))"

definition get_performance_trends ::
  "ConversationMemory \<Rightarrow> uuid \<Rightarrow> int \<Rightarrow> exn + PerformanceSample list" where
  "get_performance_trends m sid window_size =
     (case map_of (performance_cache m) sid of
        None \<Rightarrow> Inr []
      | Some performance_data \<Rightarrow>
          Inr (if performance_data \<noteq> [] then slice_from performance_data (- window_size) else []))"

record similar_entry =
  se_timestamp :: datetime
  se_question :: "string option"
  se_answer :: "string option"
  se_question_type :: string
  se_topics_covered :: "string list"

definition similar_entry_of :: "InteractionMemory \<Rightarrow> similar_entry" where
  "similar_entry_of i =
     \<lparr>se_timestamp = timestamp i, se_question = question i, se_answer = answer i,
      se_question_type = question_type i, se_topics_covered = topics_covered i\<rparr>"

text \<open>The test that guards the \<^verbatim>\<open>append\<close> in the loop of
  \<^verbatim>\<open>search_similar_interactions\<close>; \<open>str_lower\<close> is \<^verbatim>\<open>str.lower()\<close>.\<close>

definition is_similar ::
  "(string \<Rightarrow> string) \<Rightarrow> string \<Rightarrow> string option \<Rightarrow> InteractionMemory \<Rightarrow> bool" where
  "is_similar str_lower query_topic interaction_type i =
     (if topics_covered i \<noteq> [] then
        (if list_ex (\<lambda>t. str_in (str_lower query_topic) (str_lower t)) (topics_covered i) then
           (if truthy interaction_type then question_type i = the interaction_type else True)
         else False)
      else False)"

definition search_similar_interactions ::
  "(string \<Rightarrow> string) \<Rightarrow> ConversationMemory \<Rightarrow> uuid \<Rightarrow> string \<Rightarrow> string option \<Rightarrow> int
     \<Rightarrow> exn + similar_entry list" where
  "search_similar_interactions str_lower m sid query_topic interaction_type limit =
     (case map_of (sessions m) sid of
        None \<Rightarrow> Inr []
      | Some session_memory \<Rightarrow>
          (let similar_interactions =
                 map similar_entry_of
                   (filter (is_similar str_lower query_topic interaction_type)
                      (interactions session_memory))
           in Inr (slice_from similar_interactions (- limit))))"

record topic_coverage =
  total_topics_mentioned :: nat
  tc_covered_topics :: "string list"
  topic_frequency :: "(string \<times> nat) list"
  most_discussed :: "string option"
  coverage_depth :: rat

text \<open>\<^verbatim>\<open>max(items, key=lambda x: x[1])\<close> returns the first item with the greatest count.\<close>

fun first_max :: "(string \<times> nat) \<Rightarrow> (string \<times> nat) list \<Rightarrow> (string \<times> nat)" where
  "first_max best [] = best"
| "first_max best (x # xs) = first_max (if snd x > snd best then x else best) xs"

text \<open>\<^verbatim>\<open>get_topic_coverage\<close>; \<open>None\<close> is the empty dictionary returned for an unknown
  session.\<close>

definition get_topic_coverage :: "ConversationMemory \<Rightarrow> uuid \<Rightarrow> exn + topic_coverage option" where
  "get_topic_coverage m sid =
     (case map_of (sessions m) sid of
        None \<Rightarrow> Inr None
      | Some session_memory \<Rightarrow>
          (let all_topics = concat (map topics_covered (interactions session_memory));
               freq = foldl dict_incr [] all_topics
           in Inr (Some
                \<lparr>total_topics_mentioned = length (remdups all_topics),
                 tc_covered_topics = covered_topics session_memory,
                 topic_frequency = freq,
                 most_discussed = (case freq of [] \<Rightarrow> None | x # xs \<Rightarrow> Some (fst (first_max x xs))),
                 coverage_depth =
                   of_nat (length all_topics)
                     / of_nat (max 1 (length (interactions session_memory)))\<rparr>)))"

subsection \<open>Cleanup\<close>

definition cleanup_session :: "ConversationMemory \<Rightarrow> uuid \<Rightarrow> ConversationMemory" where
  "cleanup_session m sid =
     (let m1 = (if map_of (sessions m) sid \<noteq> None
                then m\<lparr>sessions := AList.delete sid (sessions m)\<rparr> else m)
      in if map_of (performance_cache m1) sid \<noteq> None
         then m1\<lparr>performance_cache := AList.delete sid (performance_cache m1)\<rparr> else m1)"

text \<open>\<^verbatim>\<open>timedelta(hours=h)\<close> in microseconds.\<close>

definition hours :: "int \<Rightarrow> int" where
  "hours h = h * 3600000000"

definition cleanup_expired_sessions :: "ConversationMemory \<Rightarrow> datetime \<Rightarrow> ConversationMemory" where
  "cleanup_expired_sessions m now =
     (let cutoff_time = now - hours (max_memory_hours m);
          expired_sessions =
            map fst (filter (\<lambda>(sid, session_memory). start_time session_memory < cutoff_time)
                       (sessions m))
      in foldl cleanup_session m expired_sessions)"

section \<open>Orchestrator\<close>

text \<open>
  Embedding of \<^verbatim>\<open>process_user_answer\<close> and the helpers it calls in
  \<^verbatim>\<open>backend/app/agents/orchestrator/main_orchestrator.py\<close>, and of
  \<^verbatim>\<open>generate_follow_up_question\<close> in
  \<^verbatim>\<open>backend/app/agents/specialized/question_generator.py\<close>. The two calls that leave
  the program are \<^verbatim>\<open>ainvoke\<close> on the orchestrator's agent and \<^verbatim>\<open>ainvoke\<close> on the
  question generator's agent: their outcomes, a response or a raised exception, are
  parameters. The tools of the orchestrator's agent, \<^verbatim>\<open>evaluate_answer\<close> among them,
  run inside its \<^verbatim>\<open>ainvoke\<close>; each catches its own exceptions and returns an error
  dictionary.
\<close>

datatype InterviewPhase = OPENING | ARCHITECTURE | DEEP_DIVE | OPTIMIZATION | WRAP_UP

record QuestionGeneration =
  qg_question :: string
  qg_question_type :: string
  topics_targeted :: "string list"
  difficulty_level :: string
  expected_concepts :: "string list"
  guidance_hints :: "string list"

text \<open>The dictionary kept per session in \<^verbatim>\<open>current_sessions\<close>. Its \<^verbatim>\<open>"session"\<close>
  entry, a reference to the domain entity, is read by none of the functions below and is
  left out; \<^verbatim>\<open>"last_question"\<close> is absent until the first question is recorded.\<close>

record session_state =
  st_topic :: string
  st_difficulty :: DifficultyLevel
  st_phase :: InterviewPhase
  st_start_time :: datetime
  questions_asked :: int
  st_topics_covered :: "string list"
  performance_history :: "pydict list"
  user_context :: pydict
  last_question :: "string option"

record MainOrchestrator =
  memory :: ConversationMemory
  current_sessions :: "(uuid \<times> session_state) list"

text \<open>The outcomes of the two remote calls of one turn: \<^verbatim>\<open>self.agent.ainvoke\<close> of
  the orchestrator and \<^verbatim>\<open>self.agent.ainvoke\<close> of the question generator.\<close>

record agents =
  agent_ainvoke :: "exn + pyval"
  generator_ainvoke :: "exn + pyval"

subsection \<open>Follow-up generation\<close>

text \<open>\<^verbatim>\<open>topic.replace('_', ' ')\<close>.\<close>

definition replace_underscores :: "string \<Rightarrow> string" where
  "replace_underscores s = map (\<lambda>c. if c = CHR ''_'' then CHR '' '' else c) s"

text \<open>The two \<^verbatim>\<open>Literal\<close> fields of \<^verbatim>\<open>QuestionGeneration\<close>; pydantic ignores the
  extra keyword arguments \<^verbatim>\<open>time_estimate\<close> and \<^verbatim>\<open>follow_up_areas\<close>.\<close>

definition valid_question_fields :: "string \<Rightarrow> string \<Rightarrow> bool" where
  "valid_question_fields qtype level =
     (qtype \<in> set [''opening'', ''follow_up'', ''clarification'', ''topic_transition'']
      \<and> level \<in> set [''beginner'', ''intermediate'', ''advanced''])"

text \<open>\<^verbatim>\<open>_extract_question_from_response\<close>; the response is not inspected. When a
  \<^verbatim>\<open>Literal\<close> field rejects its value, the handler calls
  \<^verbatim>\<open>_create_fallback_question\<close>, which builds a \<^verbatim>\<open>QuestionGeneration\<close> from the same
  two values and raises the same validation error.\<close>

definition extract_question_from_response ::
  "pyval \<Rightarrow> string \<Rightarrow> string \<Rightarrow> string \<Rightarrow> exn + QuestionGeneration" where
  "extract_question_from_response response qtype topic_name level =
     (if valid_question_fields qtype level then Inr
        \<lparr>qg_question =
           (if qtype = ''opening''
            then ''Let's design a '' @ replace_underscores topic_name
                   @ '' system. What would you say are the key functional requirements we need to consider?''
            else ''Based on your previous answer, let's dive deeper into the architecture. How would you structure the main components?''),
         qg_question_type = qtype,
         topics_targeted =
           (if qtype = ''opening''
            then [''requirements_gathering'', ''functional_design'']
            else [''system_architecture'', ''component_design'']),
         difficulty_level = level,
         expected_concepts =
           (if qtype = ''opening''
            then [''user needs'', ''core features'', ''system boundaries'']
            else [''service boundaries'', ''data flow'', ''component interactions'']),
         guidance_hints =
           [''Think about the core functionality'', ''Consider the user journey'',
            ''Think about data requirements'']\<rparr>
      else Inl ValidationError)"

text \<open>\<^verbatim>\<open>_generate_fallback_follow_up\<close>: the template of the difficulty, formatted with
  \<^verbatim>\<open>aspects[0]\<close> and \<^verbatim>\<open>concerns[0]\<close>.\<close>

definition generate_fallback_follow_up ::
  "string \<Rightarrow> string \<Rightarrow> string \<Rightarrow> DifficultyLevel \<Rightarrow> QuestionGeneration" where
  "generate_fallback_follow_up previous_question user_answer topic_name diff =
     (let aspect = ''data storage''; concern = ''performance'' in
      \<lparr>qg_question =
         (case diff of
            BEGINNER \<Rightarrow>
              ''That's a good start! Can you tell me more about how you would handle ''
                @ aspect @ ''?''
          | INTERMEDIATE \<Rightarrow>
              ''Interesting approach. How would you ensure '' @ aspect
                @ '' while maintaining '' @ concern @ ''?''
          | ADVANCED \<Rightarrow>
              ''Given your design, what trade-offs would you consider for '' @ aspect
                @ '' in a large-scale deployment?''),
       qg_question_type = ''follow_up'',
       topics_targeted = [''architecture'', ''trade_offs''],
       difficulty_level = difficulty_value diff,
       expected_concepts = [''system design principles'', ''architectural decisions''],
       guidance_hints =
         [''Consider the pros and cons'', ''Think about scale'', ''Consider user experience'']\<rparr>)"

text \<open>\<^verbatim>\<open>generate_follow_up_question\<close>: whatever the body of its \<^verbatim>\<open>try\<close> raises,
  the handler returns the templated question, so the function always returns.\<close>

definition generate_follow_up_question ::
  "agents \<Rightarrow> string \<Rightarrow> string \<Rightarrow> pydict \<Rightarrow> string \<Rightarrow> DifficultyLevel \<Rightarrow> QuestionGeneration" where
  "generate_follow_up_question ag previous_question user_answer evaluation_scores topic_name diff =
     (case generator_ainvoke ag of
        Inl e \<Rightarrow> generate_fallback_follow_up previous_question user_answer topic_name diff
      | Inr response \<Rightarrow>
          (case extract_question_from_response response ''follow_up'' topic_name
                  (difficulty_value diff) of
             Inl e \<Rightarrow> generate_fallback_follow_up previous_question user_answer topic_name diff
           | Inr question_generated \<Rightarrow> question_generated))"

subsection \<open>The turn\<close>

text \<open>The \<^verbatim>\<open>"context"\<close> entry of a payload: \<^verbatim>\<open>follow_up.dict()\<close> on the normal path,
  the text \<^verbatim>\<open>f"Fallback response due to: {error}"\<close> on the fallback path.\<close>

datatype payload_context = QuestionContext QuestionGeneration | FallbackDueTo exn

record payload =
  p_type :: string
  p_message :: string
  p_context :: payload_context
  focus_areas :: "string list"
  p_session_id :: uuid
  p_fallback :: "bool option"      \<comment> \<open>\<open>None\<close>: the payload has no \<^verbatim>\<open>"fallback"\<close> key\<close>
  p_evaluation :: "pydict option"  \<comment> \<open>\<open>None\<close>: the payload has no \<^verbatim>\<open>"evaluation"\<close> key\<close>

text \<open>\<^verbatim>\<open>_process_agent_response\<close>; the agent's response is not inspected.\<close>

definition process_agent_response ::
  "MainOrchestrator \<Rightarrow> agents \<Rightarrow> pyval \<Rightarrow> uuid \<Rightarrow> string \<Rightarrow> exn + payload" where
  "process_agent_response orch ag response sid user_answer =
     (case map_of (current_sessions orch) sid of
        None \<Rightarrow> Inl (KeyError sid)
      | Some st \<Rightarrow>
          (let follow_up =
                 generate_follow_up_question ag
                   (case last_question st of None \<Rightarrow> [] | Some q \<Rightarrow> q)
                   user_answer [(''clarity_score'', PFloat 7)] (st_topic st) (st_difficulty st)
           in Inr
               \<lparr>p_type = ''follow_up'',
                p_message = qg_question follow_up,
                p_context = QuestionContext follow_up,
                focus_areas = topics_targeted follow_up,
                p_session_id = sid,
                p_fallback = None,
                p_evaluation = None\<rparr>))"

text \<open>\<^verbatim>\<open>_generate_fallback_response\<close>.\<close>

definition generate_fallback_response ::
  "MainOrchestrator \<Rightarrow> uuid \<Rightarrow> string \<Rightarrow> exn \<Rightarrow> exn + payload" where
  "generate_fallback_response orch sid user_answer err =
     (case map_of (current_sessions orch) sid of
        None \<Rightarrow> Inl (KeyError sid)
      | Some st \<Rightarrow> Inr
          \<lparr>p_type = ''fallback'',
           p_message = ''Thank you for your response. Can you elaborate on your approach to handling scalability?'',
           p_context = FallbackDueTo err,
           focus_areas = [''scalability'', ''architecture''],
           p_session_id = sid,
           p_fallback = Some True,
           p_evaluation = None\<rparr>)"

text \<open>\<^verbatim>\<open>_update_session_state\<close>; every payload has a \<^verbatim>\<open>"message"\<close> key.\<close>

definition update_session_state ::
  "MainOrchestrator \<Rightarrow> uuid \<Rightarrow> string \<Rightarrow> payload \<Rightarrow> exn + MainOrchestrator" where
  "update_session_state orch sid user_answer response =
     (case map_of (current_sessions orch) sid of
        None \<Rightarrow> Inl (KeyError sid)
      | Some st \<Rightarrow>
          (let st1 = st\<lparr>questions_asked := questions_asked st + 1\<rparr>;
               st2 = (case p_evaluation response of
                        Some ev \<Rightarrow> st1\<lparr>performance_history := performance_history st1 @ [ev]\<rparr>
                      | None \<Rightarrow> st1);
               st3 = st2\<lparr>last_question := Some (p_message response)\<rparr>
           in Inr (orch\<lparr>current_sessions := AList.update sid st3 (current_sessions orch)\<rparr>)))"

text \<open>\<^verbatim>\<open>process_user_answer\<close>: the value returned or the exception raised, and the
  orchestrator afterwards. The body of the \<^verbatim>\<open>try\<close> mutates state only in its last
  step, so the handler runs on the state of entry.\<close>

definition process_user_answer ::
  "MainOrchestrator \<Rightarrow> agents \<Rightarrow> uuid \<Rightarrow> string \<Rightarrow> (exn + payload) \<times> MainOrchestrator" where
  "process_user_answer orch ag sid user_answer =
     (case map_of (current_sessions orch) sid of
        None \<Rightarrow> (Inl (ValueError sid), orch)
      | Some st \<Rightarrow>
          (let attempt =
                 (case agent_ainvoke ag of
                    Inl e \<Rightarrow> Inl e
                  | Inr response \<Rightarrow>
                      (case process_agent_response orch ag response sid user_answer of
                         Inl e \<Rightarrow> Inl e
                       | Inr processed_response \<Rightarrow>
                           (case update_session_state orch sid user_answer processed_response of
                              Inl e \<Rightarrow> Inl e
                            | Inr orch' \<Rightarrow> Inr (processed_response, orch'))))
           in case attempt of
                Inr (processed_response, orch') \<Rightarrow> (Inr processed_response, orch')
              | Inl e \<Rightarrow> (generate_fallback_response orch sid user_answer e, orch)))"

section \<open>Reference definitions\<close>

text \<open>The specification's reading of the two bounded queries: the \<open>n\<close> most recent elements
  of a chronological list (all of them when there are fewer), and the match of one
  interaction against a topic query and an optional kind, where two strings are compared
  without regard to case by comparing what \<^verbatim>\<open>str.lower()\<close> makes of them.\<close>

definition most_recent :: "nat \<Rightarrow> 'a list \<Rightarrow> 'a list" where
  "most_recent n xs = drop (length xs - n) xs"

definition topic_match ::
  "(string \<Rightarrow> string) \<Rightarrow> string \<Rightarrow> string option \<Rightarrow> InteractionMemory \<Rightarrow> bool" where
  "topic_match str_lower query_topic kind i =
     (list_ex (\<lambda>t. str_in (str_lower query_topic) (str_lower t)) (topics_covered i)
      \<and> (case kind of None \<Rightarrow> True | Some k \<Rightarrow> question_type i = k))"

text \<open>An operation signals that the session is unknown.\<close>

definition signals_not_found :: "exn + 'a \<Rightarrow> uuid \<Rightarrow> bool" where
  "signals_not_found r sid = (r = Inl (ValueError sid))"

text \<open>The topic labels one call passes, and the interaction one call records.\<close>

definition topics_passed :: "interaction_args \<Rightarrow> string set" where
  "topics_passed a = (case arg_expected_topics a of None \<Rightarrow> {} | Some ts \<Rightarrow> set ts)"

definition recorded :: "datetime \<times> interaction_args \<Rightarrow> InteractionMemory" where
  "recorded c = new_interaction (fst c) (snd c)"

text \<open>The specification's reading of \<^verbatim>\<open>search_similar_interactions\<close> and of
  \<^verbatim>\<open>get_conversation_history\<close> on a known session, for a limit that is given.\<close>

definition search_reference ::
  "(string \<Rightarrow> string) \<Rightarrow> SessionMemory \<Rightarrow> string \<Rightarrow> string option \<Rightarrow> int
     \<Rightarrow> similar_entry list" where
  "search_reference str_lower s query_topic kind limit =
     map similar_entry_of
       (most_recent (nat limit)
          (filter (topic_match str_lower query_topic kind) (interactions s)))"

definition history_reference :: "SessionMemory \<Rightarrow> int \<Rightarrow> bool \<Rightarrow> history_entry list" where
  "history_reference s limit include_evaluations =
     map (history_entry_of include_evaluations) (most_recent (nat limit) (interactions s))"

text \<open>A session is expired when its start time is older than the clock reading minus
  \<^verbatim>\<open>max_memory_hours\<close>.\<close>

definition expired :: "ConversationMemory \<Rightarrow> datetime \<Rightarrow> uuid \<Rightarrow> bool" where
  "expired m now sid =
     (case map_of (sessions m) sid of
        None \<Rightarrow> False
      | Some s \<Rightarrow> start_time s < now - hours (max_memory_hours m))"

section \<open>Example states\<close>

text \<open>Session 7 after two interactions tagged \<^verbatim>\<open>["caching", "database"]\<close> and
  \<^verbatim>\<open>["caching", "cdn"]\<close>, in a store with the default configuration.\<close>

definition first_interaction :: InteractionMemory where
  "first_interaction =
     \<lparr>timestamp = 1, question = Some ''Q1'', answer = None, evaluation = None,
      feedback = None, context_data = None, question_type = ''general'',
      topics_covered = [''caching'', ''database'']\<rparr>"

definition second_interaction :: InteractionMemory where
  "second_interaction =
     \<lparr>timestamp = 2, question = Some ''Q2'', answer = None, evaluation = None,
      feedback = None, context_data = None, question_type = ''general'',
      topics_covered = [''caching'', ''cdn'']\<rparr>"

definition two_topics_session :: SessionMemory where
  "two_topics_session =
     \<lparr>session_id = 7, topic = ''chat_system'', difficulty = BEGINNER, start_time = 0,
      interactions = [first_interaction, second_interaction],
      current_question = Some ''Q2'',
      covered_topics = [''caching'', ''database'', ''cdn''],
      performance_trends = [], context_summary = None\<rparr>"

definition two_topics_memory :: ConversationMemory where
  "two_topics_memory =
     \<lparr>sessions = [(7, two_topics_session)],
      max_memory_hours = 24, max_interactions_per_session = 100, performance_cache = []\<rparr>"

text \<open>An orchestrator that knows session 7, with that memory.\<close>

definition example_state :: session_state where
  "example_state =
     \<lparr>st_topic = ''chat_system'', st_difficulty = BEGINNER, st_phase = OPENING,
      st_start_time = 0, questions_asked = 2, st_topics_covered = [],
      performance_history = [], user_context = [], last_question = Some ''Q2''\<rparr>"

definition example_orchestrator :: MainOrchestrator where
  "example_orchestrator =
     \<lparr>memory = two_topics_memory, current_sessions = [(7, example_state)]\<rparr>"

text \<open>Remote calls that both succeed, an orchestrator agent that raises, and a question
  generator agent that raises.\<close>

definition responsive_agents :: agents where
  "responsive_agents = \<lparr>agent_ainvoke = Inr PNone, generator_ainvoke = Inr PNone\<rparr>"




text \<open>A store read at clock \<open>hours 100\<close>: session 3 started 25 hours before, session 4
  one hour before; both have a cached performance sample.\<close>

definition example_sample :: PerformanceSample where
  "example_sample =
     \<lparr>ps_timestamp = 3, ps_evaluation = [(''clarity_score'', PFloat 8)],
      ps_question_type = ''general''\<rparr>"

definition aged_session :: "uuid \<Rightarrow> datetime \<Rightarrow> SessionMemory" where
  "aged_session sid t =
     \<lparr>session_id = sid, topic = ''chat_system'', difficulty = BEGINNER, start_time = t,
      interactions = [], current_question = None, covered_topics = [],
      performance_trends = [], context_summary = None\<rparr>"

definition aged_memory :: ConversationMemory where
  "aged_memory =
     \<lparr>sessions = [(3, aged_session 3 (hours 100 - hours 25)),
                  (4, aged_session 4 (hours 100 - hours 1))],
      max_memory_hours = 24, max_interactions_per_session = 100,
      performance_cache = [(3, [example_sample]), (4, [example_sample])]\<rparr>"

text \<open>Session 7 after one evaluated interaction.\<close>

definition evaluated_args :: interaction_args where
  "evaluated_args =
     default_args\<lparr>arg_question := Some ''Q1'', arg_answer := Some ''A1'',
                  arg_evaluation := Some [(''clarity_score'', PFloat 8)],
                  arg_expected_topics := Some [''caching''],
                  arg_timestamp := Some 3\<rparr>"

definition evaluated_memory :: ConversationMemory where
  "evaluated_memory =
     \<lparr>sessions =
        [(7, \<lparr>session_id = 7, topic = ''chat_system'', difficulty = BEGINNER, start_time = 0,
              interactions = [new_interaction 3 evaluated_args],
              current_question = Some ''Q1'', covered_topics = [''caching''],
              performance_trends = [], context_summary = None\<rparr>)],
      max_memory_hours = 24, max_interactions_per_session = 100,
      performance_cache = [(7, [example_sample])]\<rparr>"

section \<open>Facts about the primitives\<close>

lemma length_slice_from_neg:
  "0 < k \<Longrightarrow> length (slice_from xs (- k)) = min (nat k) (length xs)"
  by (auto simp: slice_from_def Let_def)

lemma slice_from_zero: "slice_from xs 0 = xs"
  by (simp add: slice_from_def)

lemma slice_to_zero: "slice_to xs 0 = []"
  by (simp add: slice_to_def)

lemma slice_from_neg_most_recent:
  "0 < k \<Longrightarrow> slice_from xs (- k) = most_recent (nat k) xs"
  by (auto simp: slice_from_def most_recent_def Let_def max_def nat_diff_distrib'
      intro!: arg_cong2[where f=drop])

lemma slice_to_neg:
  "0 < k \<Longrightarrow> slice_to xs (- k) = take (length xs - nat k) xs"
  by (auto simp: slice_to_def Let_def max_def nat_diff_distrib' intro!: arg_cong2[where f=take])

lemma length_most_recent: "length (most_recent n xs) = min n (length xs)"
  by (auto simp: most_recent_def)

lemma most_recent_suffix: "\<exists>older. xs = older @ most_recent n xs"
  by (metis append_take_drop_id most_recent_def)

lemma most_recent_map: "most_recent n (map f xs) = map f (most_recent n xs)"
  by (simp add: most_recent_def drop_map)

lemma starts_with_iff: "starts_with a b \<longleftrightarrow> (\<exists>ss. b = a @ ss)"
  by (induction a b rule: starts_with.induct) auto

lemma str_in_iff: "str_in a b \<longleftrightarrow> (\<exists>ps ss. b = ps @ a @ ss)"
proof (induction b)
  case Nil
  then show ?case by simp
next
  case (Cons y b)
  show ?case
  proof
    assume "str_in a (y # b)"
    then consider "starts_with a (y # b)" | "str_in a b" by auto
    then show "\<exists>ps ss. y # b = ps @ a @ ss"
    proof cases
      case 1
      then obtain ss where "y # b = a @ ss" by (auto simp: starts_with_iff)
      then have "y # b = [] @ a @ ss" by simp
      then show ?thesis by blast
    next
      case 2
      then obtain ps ss where "b = ps @ a @ ss" using Cons.IH by blast
      then have "y # b = (y # ps) @ a @ ss" by simp
      then show ?thesis by blast
    qed
  next
    assume "\<exists>ps ss. y # b = ps @ a @ ss"
    then obtain ps ss where e: "y # b = ps @ a @ ss" by blast
    show "str_in a (y # b)"
    proof (cases ps)
      case Nil
      then have "starts_with a (y # b)" using e by (auto simp: starts_with_iff)
      then show ?thesis by simp
    next
      case (Cons p ps')
      then have "b = ps' @ a @ ss" using e by simp
      then have "str_in a b" using Cons.IH by blast
      then show ?thesis by simp
    qed
  qed
qed

lemma ascii_lower_scenario:
  "ascii_lower ''cach'' = ''cach''" "ascii_lower ''cdn'' = ''cdn''"
  "ascii_lower ''caching'' = ''caching''" "ascii_lower ''database'' = ''database''"
  "ascii_lower ''CDN'' = ''cdn''"
  by code_simp+

lemma set_extend_topics: "set (extend_topics covered ts) = set covered \<union> set ts"
  by (induction ts arbitrary: covered) auto

lemma distinct_extend_topics: "distinct covered \<Longrightarrow> distinct (extend_topics covered ts)"
  by (induction ts arbitrary: covered) auto

section \<open>Sessions and insertion\<close>

lemma initialize_session_fresh:
  "map_of (sessions (initialize_session m now sid tp diff)) sid =
     Some \<lparr>session_id = sid, topic = tp, difficulty = diff, start_time = now,
           interactions = [], current_question = None, covered_topics = [],
           performance_trends = [], context_summary = None\<rparr>"
  by (simp add: initialize_session_def update_conv')

lemma initialize_session_config:
  "max_interactions_per_session (initialize_session m now sid tp diff) = max_interactions_per_session m"
  "max_memory_hours (initialize_session m now sid tp diff) = max_memory_hours m"
  "performance_cache (initialize_session m now sid tp diff) = performance_cache m"
  by (simp_all add: initialize_session_def)

lemma manage_memory_size_bound:
  "2 \<le> maxi \<Longrightarrow> int (length (interactions (manage_memory_size maxi s))) \<le> maxi"
  by (auto simp: manage_memory_size_def Let_def length_slice_from_neg)

lemma manage_memory_size_small:
  "int (length (interactions s)) \<le> maxi \<Longrightarrow> manage_memory_size maxi s = s"
  by (simp add: manage_memory_size_def)

lemma add_interaction_unknown:
  "map_of (sessions m) sid = None \<Longrightarrow> add_interaction m now sid a = Inl (ValueError sid)"
  by (simp add: add_interaction_def)

lemma add_interaction_known:
  assumes "map_of (sessions m) sid = Some s"
  shows "\<exists>m' s'. add_interaction m now sid a = Inr m'
           \<and> map_of (sessions m') sid = Some s'
           \<and> max_interactions_per_session m' = max_interactions_per_session m
           \<and> max_memory_hours m' = max_memory_hours m
           \<and> interactions s' = interactions (manage_memory_size (max_interactions_per_session m)
                 (s\<lparr>interactions := interactions s @ [new_interaction now a]\<rparr>))
           \<and> context_summary s' = context_summary (manage_memory_size (max_interactions_per_session m)
                 (s\<lparr>interactions := interactions s @ [new_interaction now a]\<rparr>))
           \<and> covered_topics s' =
               (if truthy (arg_expected_topics a)
                then extend_topics (covered_topics s) (the (arg_expected_topics a))
                else covered_topics s)"
  using assms
  by (simp add: add_interaction_def Let_def update_conv' manage_memory_size_def)

lemma distinct_sessions_init_memory: "distinct (map fst (sessions (init_memory h n)))"
  by (simp add: init_memory_def)

lemma distinct_sessions_initialize_session:
  "distinct (map fst (sessions m)) \<Longrightarrow>
   distinct (map fst (sessions (initialize_session m now sid tp diff)))"
  by (simp add: initialize_session_def distinct_update)

lemma distinct_sessions_add_interaction:
  "distinct (map fst (sessions m)) \<Longrightarrow> add_interaction m now sid a = Inr m' \<Longrightarrow>
   distinct (map fst (sessions m'))"
  by (auto simp: add_interaction_def Let_def distinct_update split: option.splits)

lemma add_interactions_append:
  "add_interactions m sid (cs @ ds) =
     (case add_interactions m sid cs of Inl e \<Rightarrow> Inl e | Inr m' \<Rightarrow> add_interactions m' sid ds)"
  by (induction cs arbitrary: m) (auto split: sum.splits)

lemma two_topics_memory_reachable:
  "add_interactions (initialize_session (init_memory 24 100) 0 7 ''chat_system'' BEGINNER) 7
     [(1, default_args\<lparr>arg_question := Some ''Q1'',
                        arg_expected_topics := Some [''caching'', ''database'']\<rparr>),
      (2, default_args\<lparr>arg_question := Some ''Q2'',
                        arg_expected_topics := Some [''caching'', ''cdn'']\<rparr>)]
   = Inr two_topics_memory"
  by (simp add: two_topics_memory_def two_topics_session_def first_interaction_def
      second_interaction_def initialize_session_def init_memory_def add_interaction_def
      Let_def default_args_def new_interaction_def manage_memory_size_def)

lemma evaluated_memory_reachable:
  "add_interaction (initialize_session (init_memory 24 100) 0 7 ''chat_system'' BEGINNER) 9 7
     evaluated_args = Inr evaluated_memory"
  by (simp add: evaluated_memory_def evaluated_args_def example_sample_def initialize_session_def
      init_memory_def add_interaction_def Let_def default_args_def new_interaction_def
      manage_memory_size_def cache_append_def)

section \<open>The size bound\<close>

text \<open>With a bound of at least 2 the eviction step restores the bound after every
  insertion, whatever the session held before.\<close>

lemma add_interaction_bound:
  assumes "2 \<le> max_interactions_per_session m"
    and "add_interaction m now sid a = Inr m'"
    and "map_of (sessions m') sid = Some s'"
  shows "int (length (interactions s')) \<le> max_interactions_per_session m'"
  using assms
  by (auto simp: add_interaction_def Let_def update_conv' manage_memory_size_bound
      split: option.splits)

text \<open>
  Claim C1 states that after every \<^verbatim>\<open>add_interaction\<close> call the session holds at most
  \<^verbatim>\<open>max_interactions_per_session\<close> interactions. With a bound of 1 the eviction step
  computes \<^verbatim>\<open>keep_count = 0\<close>, and \<^verbatim>\<open>interactions[-0:]\<close> is the whole list: on a store
  created with \<^verbatim>\<open>max_interactions_per_session = 1\<close>, a fresh session holds 2 interactions
  after two calls.
\<close>

theorem size_bound_broken_at_max_one:
  "map_option (\<lambda>s. length (interactions s))
     (session_of
        (add_interactions (initialize_session (init_memory 24 1) 0 7 ''chat_system'' BEGINNER) 7
           [(1, default_args), (2, default_args)]) 7) = Some 2
   \<and> map_option (\<lambda>s. context_summary s)
     (session_of
        (add_interactions (initialize_session (init_memory 24 1) 0 7 ''chat_system'' BEGINNER) 7
           [(1, default_args), (2, default_args)]) 7) = Some None"
  by (simp add: session_of_def initialize_session_def init_memory_def add_interaction_def Let_def
      manage_memory_size_def slice_from_def slice_to_def summarize_interactions_def
      default_args_def new_interaction_def)

section \<open>Eviction\<close>

lemma add_interaction_below_bound:
  assumes "map_of (sessions m) sid = Some s"
    and "int (length (interactions s)) < max_interactions_per_session m"
  shows "\<exists>m' s'. add_interaction m now sid a = Inr m' \<and> map_of (sessions m') sid = Some s'
           \<and> max_interactions_per_session m' = max_interactions_per_session m
           \<and> interactions s' = interactions s @ [new_interaction now a]
           \<and> context_summary s' = context_summary s"
proof -
  let ?s = "s\<lparr>interactions := interactions s @ [new_interaction now a]\<rparr>"
  have "manage_memory_size (max_interactions_per_session m) ?s = ?s"
    using assms(2) by (intro manage_memory_size_small) simp
  with add_interaction_known[OF assms(1), of now a] show ?thesis
    by auto
qed

lemma add_interactions_below_bound:
  assumes "map_of (sessions m) sid = Some s"
    and "int (length (interactions s) + length calls) \<le> max_interactions_per_session m"
  shows "\<exists>m' s'. add_interactions m sid calls = Inr m' \<and> map_of (sessions m') sid = Some s'
           \<and> max_interactions_per_session m' = max_interactions_per_session m
           \<and> interactions s' = interactions s @ map recorded calls
           \<and> context_summary s' = context_summary s"
  using assms
proof (induction calls arbitrary: m s)
  case Nil
  then show ?case by simp
next
  case (Cons c calls)
  obtain now a where c: "c = (now, a)" by (cases c)
  have "int (length (interactions s)) < max_interactions_per_session m"
    using Cons.prems(2) by simp
  from add_interaction_below_bound[OF Cons.prems(1) this, of now a] obtain m1 s1 where
    h: "add_interaction m now sid a = Inr m1" "map_of (sessions m1) sid = Some s1"
       "max_interactions_per_session m1 = max_interactions_per_session m"
       "interactions s1 = interactions s @ [new_interaction now a]"
       "context_summary s1 = context_summary s"
    by blast
  have "int (length (interactions s1) + length calls) \<le> max_interactions_per_session m1"
    using Cons.prems(2) h(3,4) by simp
  from Cons.IH[OF h(2) this] obtain m' s' where
    h': "add_interactions m1 sid calls = Inr m'" "map_of (sessions m') sid = Some s'"
        "max_interactions_per_session m' = max_interactions_per_session m1"
        "interactions s' = interactions s1 @ map recorded calls"
        "context_summary s' = context_summary s1"
    by blast
  show ?case
    using h h' by (simp add: c recorded_def)
qed

lemma add_interaction_eviction:
  assumes "map_of (sessions m) sid = Some s"
    and "2 \<le> max_interactions_per_session m"
    and "int (length (interactions s)) = max_interactions_per_session m"
  shows "\<exists>m' s'. add_interaction m now sid a = Inr m' \<and> map_of (sessions m') sid = Some s'
           \<and> interactions s' =
               most_recent (nat (max_interactions_per_session m div 2))
                 (interactions s @ [new_interaction now a])
           \<and> context_summary s' =
               summarize_interactions
                 (take (length (interactions s) + 1 - nat (max_interactions_per_session m div 2))
                    (interactions s @ [new_interaction now a]))"
proof -
  have k: "0 < max_interactions_per_session m div 2"
    using assms(2) by simp
  let ?s = "s\<lparr>interactions := interactions s @ [new_interaction now a]\<rparr>"
  have "manage_memory_size (max_interactions_per_session m) ?s =
          ?s\<lparr>context_summary := summarize_interactions
                 (slice_to (interactions ?s) (- (max_interactions_per_session m div 2))),
              interactions := slice_from (interactions ?s) (- (max_interactions_per_session m div 2))\<rparr>"
    using assms(3) by (simp add: manage_memory_size_def Let_def)
  with add_interaction_known[OF assms(1), of now a] show ?thesis
    by (auto simp: slice_from_neg_most_recent[OF k] slice_to_neg[OF k])
qed

lemma summarize_interactions_nonempty:
  "xs \<noteq> [] \<Longrightarrow> summarize_interactions xs = Some
          \<lparr>summarized_interactions = length xs,
           time_period_start = timestamp (hd xs),
           time_period_end = timestamp (last xs),
           topics_discussed = set (concat (map topics_covered xs)),
           question_types = set (filter (\<lambda>q. q \<noteq> []) (map question_type xs)),
           evaluation_count = length (filter (\<lambda>i. truthy (evaluation i)) xs)\<rparr>"
  by (cases xs) (simp_all add: summarize_interactions_def)

text \<open>
  Claim C2. In a store with \<^verbatim>\<open>max_interactions_per_session = 10\<close>, eleven
  \<^verbatim>\<open>add_interaction\<close> calls on a freshly initialised session all succeed and leave exactly
  5 interactions, the five most recent ones in order. The context summary then describes
  the six evicted ones: their number 6, the timestamps of the first and the sixth, the
  set of their topic labels, the set of their (non-empty) question kinds, and the number of
  them that carried an evaluation.
\<close>

theorem eviction_keeps_five_of_eleven:
  assumes "max_interactions_per_session m = 10" and "length calls = 11"
  shows "\<exists>s'. session_of (add_interactions (initialize_session m t0 sid tp diff) sid calls) sid = Some s'
     \<and> length (interactions s') = 5
     \<and> interactions s' = map recorded (drop 6 calls)
     \<and> context_summary s' = Some
         \<lparr>summarized_interactions = 6,
          time_period_start = timestamp (recorded (calls ! 0)),
          time_period_end = timestamp (recorded (calls ! 5)),
          topics_discussed = set (concat (map (\<lambda>c. topics_covered (recorded c)) (take 6 calls))),
          question_types =
            set (filter (\<lambda>q. q \<noteq> []) (map (\<lambda>c. question_type (recorded c)) (take 6 calls))),
          evaluation_count =
            length (filter (\<lambda>c. truthy (evaluation (recorded c))) (take 6 calls))\<rparr>"
proof -
  let ?m0 = "initialize_session m t0 sid tp diff"
  let ?s0 = "\<lparr>session_id = sid, topic = tp, difficulty = diff, start_time = t0,
           interactions = [], current_question = None, covered_topics = [],
           performance_trends = [], context_summary = None\<rparr>"
  have s0: "map_of (sessions ?m0) sid = Some ?s0" by (rule initialize_session_fresh)
  have max0: "max_interactions_per_session ?m0 = 10"
    using assms(1) by (simp add: initialize_session_config)
  have len10: "length (take 10 calls) = 10" using assms(2) by simp
  have d10: "drop 10 calls = [calls ! 10]"
    using Cons_nth_drop_Suc[of 10 calls] assms(2) by simp
  have calls: "calls = take 10 calls @ [calls ! 10]"
    using append_take_drop_id[of 10 calls] d10 by simp
  obtain now a where c: "calls ! 10 = (now, a)" by (cases "calls ! 10")
  have "int (length (interactions ?s0) + length (take 10 calls)) \<le> max_interactions_per_session ?m0"
    using max0 len10 by simp
  from add_interactions_below_bound[OF s0 this] obtain m1 s1 where
    h1: "add_interactions ?m0 sid (take 10 calls) = Inr m1" "map_of (sessions m1) sid = Some s1"
        "max_interactions_per_session m1 = 10"
        "interactions s1 = map recorded (take 10 calls)"
        "context_summary s1 = None"
    using max0 by auto
  have full: "int (length (interactions s1)) = max_interactions_per_session m1"
    using h1(3,4) len10 by simp
  have two: "2 \<le> max_interactions_per_session m1" using h1(3) by simp
  from add_interaction_eviction[OF h1(2) two full, of now a] obtain m2 s2 where
    h2: "add_interaction m1 now sid a = Inr m2" "map_of (sessions m2) sid = Some s2"
        "interactions s2 = most_recent 5 (interactions s1 @ [new_interaction now a])"
        "context_summary s2 =
           summarize_interactions (take 6 (interactions s1 @ [new_interaction now a]))"
    using h1(3,4) len10 by auto
  have all: "interactions s1 @ [new_interaction now a] = map recorded calls"
  proof -
    have "map recorded calls = map recorded (take 10 calls) @ [recorded (calls ! 10)]"
      by (subst calls) simp
    then show ?thesis by (simp add: h1(4) c recorded_def)
  qed
  have run: "add_interactions ?m0 sid calls = Inr m2"
    by (subst calls) (simp add: add_interactions_append h1(1) c h2(1))
  have kept: "interactions s2 = map recorded (drop 6 calls)"
    using assms(2) by (simp add: h2(3) all most_recent_def drop_map)
  let ?old = "map recorded (take 6 calls)"
  have old: "take 6 (map recorded calls) = ?old" by (simp add: take_map)
  have ne: "?old \<noteq> []" using assms(2) by auto
  have ne6: "take 6 calls \<noteq> []" using assms(2) by auto
  have l6: "length (take 6 calls) = 6" using assms(2) by simp
  have hd_old: "hd ?old = recorded (calls ! 0)"
    using ne6 by (simp add: hd_map hd_conv_nth)
  have last_old: "last ?old = recorded (calls ! 5)"
    using ne6 l6 by (simp add: last_map last_conv_nth)
  have len_old: "length ?old = 6" using assms(2) by simp
  have summ: "context_summary s2 = Some
         \<lparr>summarized_interactions = 6,
          time_period_start = timestamp (recorded (calls ! 0)),
          time_period_end = timestamp (recorded (calls ! 5)),
          topics_discussed = set (concat (map (\<lambda>c. topics_covered (recorded c)) (take 6 calls))),
          question_types =
            set (filter (\<lambda>q. q \<noteq> []) (map (\<lambda>c. question_type (recorded c)) (take 6 calls))),
          evaluation_count =
            length (filter (\<lambda>c. truthy (evaluation (recorded c))) (take 6 calls))\<rparr>"
    unfolding h2(4) all old summarize_interactions_nonempty[OF ne] hd_old last_old len_old
    by (simp add: comp_def filter_map)
  have "length (interactions s2) = 5" using kept assms(2) by simp
  with run h2(2) kept summ show ?thesis
    by (simp add: session_of_def)
qed

text \<open>Eleven calls with clock readings 1 to 11, each tagged \<^verbatim>\<open>["caching"]\<close>: the
  interactions of readings 7 to 11 remain, and the summary covers readings 1 to 6.\<close>

theorem eviction_keeps_five_of_eleven_witness:
  "\<exists>s'. session_of
           (add_interactions (initialize_session (init_memory 24 10) 0 7 ''chat_system'' BEGINNER) 7
              (map (\<lambda>t. (t, default_args\<lparr>arg_expected_topics := Some [''caching'']\<rparr>))
                 [1, 2, 3, 4, 5, 6, 7, 8, 9, 10, 11])) 7 = Some s'
     \<and> map timestamp (interactions s') = [7, 8, 9, 10, 11]
     \<and> map_option summarized_interactions (context_summary s') = Some 6
     \<and> map_option time_period_start (context_summary s') = Some 1
     \<and> map_option time_period_end (context_summary s') = Some 6
     \<and> map_option topics_discussed (context_summary s') = Some {''caching''}
     \<and> map_option question_types (context_summary s') = Some {''general''}
     \<and> map_option evaluation_count (context_summary s') = Some 0"
  using eviction_keeps_five_of_eleven [of "init_memory 24 10"
      "map (\<lambda>t. (t, default_args\<lparr>arg_expected_topics := Some [''caching'']\<rparr>))
         [1, 2, 3, 4, 5, 6, 7, 8, 9, 10, 11]"
      0 7 "''chat_system''" BEGINNER]
  by (auto simp: init_memory_def recorded_def new_interaction_def default_args_def)

section \<open>Topic coverage\<close>

lemma add_interaction_covered:
  assumes "map_of (sessions m) sid = Some s"
  shows "\<exists>m' s'. add_interaction m now sid a = Inr m' \<and> map_of (sessions m') sid = Some s'
           \<and> set (covered_topics s') = set (covered_topics s) \<union> topics_passed a"
proof -
  from add_interaction_known[OF assms, of now a] obtain m' s' where
    h: "add_interaction m now sid a = Inr m'" "map_of (sessions m') sid = Some s'"
       "covered_topics s' =
               (if truthy (arg_expected_topics a)
                then extend_topics (covered_topics s) (the (arg_expected_topics a))
                else covered_topics s)"
    by blast
  have "set (covered_topics s') = set (covered_topics s) \<union> topics_passed a"
    by (cases "arg_expected_topics a") (auto simp: h(3) topics_passed_def set_extend_topics)
  with h show ?thesis by blast
qed

lemma add_interactions_covered:
  assumes "map_of (sessions m) sid = Some s"
  shows "\<exists>m' s'. add_interactions m sid calls = Inr m' \<and> map_of (sessions m') sid = Some s'
           \<and> set (covered_topics s') =
               set (covered_topics s) \<union> (\<Union>c \<in> set calls. topics_passed (snd c))"
  using assms
proof (induction calls arbitrary: m s)
  case Nil
  then show ?case by simp
next
  case (Cons c calls)
  obtain now a where c: "c = (now, a)" by (cases c)
  from add_interaction_covered[OF Cons.prems, of now a] obtain m1 s1 where
    h: "add_interaction m now sid a = Inr m1" "map_of (sessions m1) sid = Some s1"
       "set (covered_topics s1) = set (covered_topics s) \<union> topics_passed a"
    by blast
  from Cons.IH[OF h(2)] obtain m' s' where
    h': "add_interactions m1 sid calls = Inr m'" "map_of (sessions m') sid = Some s'"
        "set (covered_topics s') =
           set (covered_topics s1) \<union> (\<Union>c \<in> set calls. topics_passed (snd c))"
    by blast
  show ?case
    using h h' by (auto simp: c)
qed

text \<open>
  Claim C6. Every sequence of \<^verbatim>\<open>add_interaction\<close> calls on a known session succeeds,
  whether or not a call evicts, and afterwards \<^verbatim>\<open>covered_topics\<close> holds every label it
  held before together with every label passed by the calls, and nothing else. On a
  session that started with no covered topic, as \<^verbatim>\<open>initialize_session\<close> creates it,
  \<^verbatim>\<open>covered_topics\<close> is therefore the union of all labels ever passed.
\<close>

theorem covered_topics_grow_to_union:
  assumes "map_of (sessions m) sid = Some s"
  shows "\<exists>m' s'. add_interactions m sid calls = Inr m' \<and> map_of (sessions m') sid = Some s'
           \<and> set (covered_topics s) \<subseteq> set (covered_topics s')
           \<and> set (covered_topics s') =
               set (covered_topics s) \<union> (\<Union>c \<in> set calls. topics_passed (snd c))
           \<and> (covered_topics s = [] \<longrightarrow>
                set (covered_topics s') = (\<Union>c \<in> set calls. topics_passed (snd c)))"
proof -
  from add_interactions_covered[OF assms, of calls] obtain m' s' where
    h: "add_interactions m sid calls = Inr m'" "map_of (sessions m') sid = Some s'"
       "set (covered_topics s') =
          set (covered_topics s) \<union> (\<Union>c \<in> set calls. topics_passed (snd c))"
    by blast
  have "set (covered_topics s) \<subseteq> set (covered_topics s')" using h(3) by blast
  moreover have "covered_topics s = [] \<longrightarrow>
      set (covered_topics s') = (\<Union>c \<in> set calls. topics_passed (snd c))"
    using h(3) by simp
  ultimately show ?thesis using h by blast
qed

text \<open>Three calls on a fresh session of a store bounded at 2, so that the third call
  evicts: the covered topics are the three labels passed.\<close>

theorem covered_topics_grow_to_union_witness:
  "\<exists>m' s'. add_interactions (initialize_session (init_memory 24 2) 0 7 ''chat_system'' BEGINNER) 7
              [(1, default_args\<lparr>arg_expected_topics := Some [''caching'']\<rparr>),
               (2, default_args\<lparr>arg_expected_topics := Some [''database'']\<rparr>),
               (3, default_args\<lparr>arg_expected_topics := Some [''caching'', ''cdn'']\<rparr>)] = Inr m'
     \<and> map_of (sessions m') 7 = Some s'
     \<and> set (covered_topics s') = {''caching'', ''database'', ''cdn''}"
  using covered_topics_grow_to_union
      [of "initialize_session (init_memory 24 2) 0 7 ''chat_system'' BEGINNER" 7 _
          "[(1, default_args\<lparr>arg_expected_topics := Some [''caching'']\<rparr>),
            (2, default_args\<lparr>arg_expected_topics := Some [''database'']\<rparr>),
            (3, default_args\<lparr>arg_expected_topics := Some [''caching'', ''cdn'']\<rparr>)]",
       OF initialize_session_fresh]
  by (auto simp: topics_passed_def default_args_def)

section \<open>Unknown sessions\<close>

text \<open>
  Claim C4 states that on an unknown session id every memory operation except
  \<^verbatim>\<open>get_conversation_history\<close> signals that the session was not found. On a store with
  no session at all, \<^verbatim>\<open>get_performance_trends\<close>, \<^verbatim>\<open>search_similar_interactions\<close> and
  \<^verbatim>\<open>get_topic_coverage\<close> signal nothing: each returns an empty result.
\<close>

theorem unknown_session_not_always_signalled:
  "\<not> signals_not_found (get_performance_trends (init_memory 24 100) 7 10) 7
   \<and> \<not> signals_not_found
         (search_similar_interactions ascii_lower (init_memory 24 100) 7 ''caching'' None 5) 7
   \<and> \<not> signals_not_found (get_topic_coverage (init_memory 24 100) 7) 7"
  by (simp add: signals_not_found_def init_memory_def get_performance_trends_def
        search_similar_interactions_def get_topic_coverage_def)

text \<open>
  Claim C4, as the code has it. On an unknown session id, \<^verbatim>\<open>add_interaction\<close> and
  \<^verbatim>\<open>get_session_context\<close> signal that the session was not found;
  \<^verbatim>\<open>get_conversation_history\<close> and \<^verbatim>\<open>search_similar_interactions\<close> return the empty
  list, \<^verbatim>\<open>get_topic_coverage\<close> returns the empty dictionary, and
  \<^verbatim>\<open>get_performance_trends\<close> never signals: it answers from the performance cache, with
  the empty list when the id has no cache entry.
\<close>

theorem unknown_session_outcomes:
  assumes "map_of (sessions m) sid = None"
  shows "signals_not_found (add_interaction m now sid a) sid
       \<and> signals_not_found (get_session_context m sid) sid
       \<and> get_conversation_history m sid limit inc = Inr []
       \<and> search_similar_interactions str_lower m sid q kind n = Inr []
       \<and> get_topic_coverage m sid = Inr None
       \<and> \<not> signals_not_found (get_performance_trends m sid w) sid
       \<and> (map_of (performance_cache m) sid = None \<longrightarrow> get_performance_trends m sid w = Inr [])"
  using assms
  by (auto simp: signals_not_found_def add_interaction_def get_session_context_def
        get_conversation_history_def search_similar_interactions_def get_topic_coverage_def
        get_performance_trends_def split: option.splits)

theorem unknown_session_outcomes_witness:
  "signals_not_found (add_interaction two_topics_memory 3 9 default_args) 9
   \<and> signals_not_found (get_session_context two_topics_memory 9) 9
   \<and> get_conversation_history two_topics_memory 9 (Some 5) False = Inr []
   \<and> search_similar_interactions ascii_lower two_topics_memory 9 ''caching'' None 5 = Inr []
   \<and> get_topic_coverage two_topics_memory 9 = Inr None
   \<and> get_performance_trends two_topics_memory 9 10 = Inr []"
  using unknown_session_outcomes [of two_topics_memory 9 3 default_args "Some 5" False
      ascii_lower "''caching''" None 5 10]
  by (simp add: two_topics_memory_def)

section \<open>One turn of the orchestrator\<close>


text \<open>
  Claim C3 states that a successful \<^verbatim>\<open>process_user_answer\<close> turn appends the exchange
  to the session's memory. On an orchestrator that knows session 7, whose memory holds two
  interactions for it, a turn in which both remote calls succeed returns the follow-up
  payload and counts the question, and the memory is the same as before: session 7 still
  holds two interactions.
\<close>

theorem process_user_answer_records_nothing:
  "fst (process_user_answer example_orchestrator responsive_agents 7 ''A2'') =
     Inr \<lparr>p_type = ''follow_up'',
          p_message = ''Based on your previous answer, let's dive deeper into the architecture. How would you structure the main components?'',
          p_context = QuestionContext
            (generate_follow_up_question responsive_agents ''Q2'' ''A2''
               [(''clarity_score'', PFloat 7)] ''chat_system'' BEGINNER),
          focus_areas = [''system_architecture'', ''component_design''],
          p_session_id = 7, p_fallback = None, p_evaluation = None\<rparr>
   \<and> map_option questions_asked
       (map_of (current_sessions
          (snd (process_user_answer example_orchestrator responsive_agents 7 ''A2''))) 7) = Some 3
   \<and> memory (snd (process_user_answer example_orchestrator responsive_agents 7 ''A2'')) =
       memory example_orchestrator
   \<and> map_option (\<lambda>s. length (interactions s))
       (map_of (sessions (memory
          (snd (process_user_answer example_orchestrator responsive_agents 7 ''A2'')))) 7) = Some 2"
  by (simp add: process_user_answer_def process_agent_response_def update_session_state_def
      example_orchestrator_def example_state_def responsive_agents_def
      generate_follow_up_question_def extract_question_from_response_def
      valid_question_fields_def two_topics_memory_def two_topics_session_def Let_def)

subsection \<open>Failing remote calls\<close>

lemma extract_follow_up_valid:
  "valid_question_fields ''follow_up'' (difficulty_value d)"
  by (cases d) (simp_all add: valid_question_fields_def)

lemma generate_follow_up_question_on_response:
  "generator_ainvoke ag = Inr r \<Longrightarrow>
   extract_question_from_response r ''follow_up'' tp (difficulty_value d) =
     Inr (generate_follow_up_question ag pq ua ev tp d)"
  by (simp add: generate_follow_up_question_def extract_question_from_response_def
      extract_follow_up_valid)






section \<open>Bounded queries\<close>

lemma is_similar_topic_match:
  "kind \<noteq> Some [] \<Longrightarrow> is_similar lw q kind i = topic_match lw q kind i"
  by (cases kind) (auto simp: is_similar_def topic_match_def list_ex_iff)

lemma topic_match_scenario:
  "topic_match ascii_lower ''cach'' None first_interaction"
  "topic_match ascii_lower ''cach'' None second_interaction"
  "\<not> topic_match ascii_lower ''cdn'' None first_interaction"
  "topic_match ascii_lower ''cdn'' None second_interaction"
  "\<not> topic_match ascii_lower ''CDN'' None first_interaction"
  "topic_match ascii_lower ''CDN'' None second_interaction"
  "\<not> topic_match ascii_lower ''cdn'' (Some []) first_interaction"
  "\<not> topic_match ascii_lower ''cdn'' (Some []) second_interaction"
  by (simp_all add: topic_match_def first_interaction_def second_interaction_def
      ascii_lower_scenario)

lemma is_similar_scenario:
  "\<not> is_similar ascii_lower ''cdn'' None first_interaction"
  "is_similar ascii_lower ''cdn'' None second_interaction"
  "\<not> is_similar ascii_lower ''cdn'' (Some []) first_interaction"
  "is_similar ascii_lower ''cdn'' (Some []) second_interaction"
  by (simp_all add: is_similar_def first_interaction_def second_interaction_def
      ascii_lower_scenario)

text \<open>
  Claim C7 states that \<^verbatim>\<open>search_similar_interactions\<close> returns the \<^verbatim>\<open>limit\<close> most recent
  of the interactions that have a topic label containing the query, case-insensitively,
  and whose kind equals the kind given. On the session tagged
  \<^verbatim>\<open>["caching", "database"]\<close> and \<^verbatim>\<open>["caching", "cdn"]\<close>, both of kind
  \<^verbatim>\<open>"general"\<close>: with \<^verbatim>\<open>limit = 0\<close> the query \<^verbatim>\<open>"cdn"\<close> returns the second
  interaction, where the zero most recent matches are none; and with the kind \<^verbatim>\<open>""\<close>
  given the query returns the second interaction, whose kind is not \<^verbatim>\<open>""\<close>. All
  strings here are ASCII, where \<^verbatim>\<open>str.lower()\<close> is \<open>ascii_lower\<close>.
\<close>

theorem search_similar_limit_zero_and_empty_kind:
  "search_similar_interactions ascii_lower two_topics_memory 7 ''cdn'' None 0 =
     Inr [similar_entry_of second_interaction]
   \<and> search_reference ascii_lower two_topics_session ''cdn'' None 0 = []
   \<and> search_similar_interactions ascii_lower two_topics_memory 7 ''cdn'' (Some []) 5 =
     Inr [similar_entry_of second_interaction]
   \<and> search_reference ascii_lower two_topics_session ''cdn'' (Some []) 5 = []"
  by (simp add: two_topics_memory_def two_topics_session_def search_similar_interactions_def
      search_reference_def most_recent_def topic_match_scenario is_similar_scenario slice_from_def)

text \<open>
  Claim C7, as the code has it. For a known session, a limit of at least 1 and a kind
  that is absent or a non-empty string, \<^verbatim>\<open>search_similar_interactions\<close> returns, in
  chronological order, the \<^verbatim>\<open>limit\<close> most recent of the interactions that have a topic
  label containing the query as a substring once \<^verbatim>\<open>str.lower()\<close> is applied to both
  and, when a kind is given, exactly that kind. An empty kind string filters nothing. The
  statement holds whatever function \<^verbatim>\<open>str.lower()\<close> is, hence for every string, ASCII
  or not.
\<close>

theorem search_similar_most_recent_matches:
  assumes "map_of (sessions m) sid = Some s" and "1 \<le> limit"
  shows "(kind \<noteq> Some [] \<longrightarrow>
            search_similar_interactions str_lower m sid q kind limit =
              Inr (search_reference str_lower s q kind limit))
       \<and> search_similar_interactions str_lower m sid q (Some []) limit =
            Inr (search_reference str_lower s q None limit)"
proof -
  have pos: "0 < limit" using assms(2) by simp
  have given: "search_similar_interactions str_lower m sid q k limit =
                 Inr (search_reference str_lower s q k limit)"
    if "k \<noteq> Some []" for k
  proof -
    have "is_similar str_lower q k = topic_match str_lower q k"
      using is_similar_topic_match[OF that] by (intro ext) simp
    then show ?thesis
      using assms(1)
      by (simp add: search_similar_interactions_def search_reference_def Let_def
          slice_from_neg_most_recent[OF pos] most_recent_map)
  qed
  have e: "is_similar str_lower q (Some []) = is_similar str_lower q None"
    by (intro ext) (simp add: is_similar_def)
  have "search_similar_interactions str_lower m sid q (Some []) limit =
               search_similar_interactions str_lower m sid q None limit"
    unfolding search_similar_interactions_def e ..
  then show ?thesis
    using given[of kind] given[of None] by simp
qed

text \<open>The scenario of the claim: the query \<^verbatim>\<open>"cach"\<close> returns both interactions, the
  query \<^verbatim>\<open>"cdn"\<close> only the second, and so does the query \<^verbatim>\<open>"CDN"\<close>.\<close>

theorem search_similar_most_recent_matches_witness:
  "search_similar_interactions ascii_lower two_topics_memory 7 ''cach'' None 5 =
     Inr [similar_entry_of first_interaction, similar_entry_of second_interaction]
   \<and> search_similar_interactions ascii_lower two_topics_memory 7 ''cdn'' None 5 =
     Inr [similar_entry_of second_interaction]
   \<and> search_similar_interactions ascii_lower two_topics_memory 7 ''CDN'' None 5 =
     Inr [similar_entry_of second_interaction]"
proof -
  have known: "map_of (sessions two_topics_memory) 7 = Some two_topics_session"
    by (simp add: two_topics_memory_def)
  have five: "(1::int) \<le> 5" by simp
  have absent: "(None :: string option) \<noteq> Some []" by simp
  show ?thesis
    using search_similar_most_recent_matches [OF known five, of None ascii_lower "''cach''"]
      search_similar_most_recent_matches [OF known five, of None ascii_lower "''cdn''"]
      search_similar_most_recent_matches [OF known five, of None ascii_lower "''CDN''"]
    by (simp add: two_topics_session_def search_reference_def most_recent_def
        topic_match_scenario)
qed

text \<open>
  Claim C8 states that for every limit supplied \<^verbatim>\<open>get_conversation_history\<close> returns the
  \<^verbatim>\<open>limit\<close> most recent interactions. With \<^verbatim>\<open>limit = 0\<close> on the session of two
  interactions it returns both, where the zero most recent interactions are none.
\<close>

theorem conversation_history_limit_zero:
  "get_conversation_history two_topics_memory 7 (Some 0) False =
     Inr [history_entry_of False first_interaction, history_entry_of False second_interaction]
   \<and> history_reference two_topics_session 0 False = []"
  by (simp add: two_topics_memory_def two_topics_session_def get_conversation_history_def
      history_reference_def most_recent_def)

text \<open>
  Claim C8, as the code has it. For an unknown session \<^verbatim>\<open>get_conversation_history\<close>
  returns the empty list, not an error. For a known session and a limit of at least 1 it
  returns the \<^verbatim>\<open>limit\<close> most recent interactions, all of them when there are fewer, in
  chronological order; with no limit, or with the limit 0, it returns all interactions.
\<close>

theorem conversation_history_most_recent:
  "(map_of (sessions m) sid = None \<longrightarrow> get_conversation_history m sid limit inc = Inr [])
   \<and> (map_of (sessions m) sid = Some s \<longrightarrow>
        (1 \<le> l \<longrightarrow> get_conversation_history m sid (Some l) inc = Inr (history_reference s l inc))
        \<and> (int (length (interactions s)) \<le> l \<longrightarrow>
             get_conversation_history m sid (Some l) inc =
               Inr (map (history_entry_of inc) (interactions s)))
        \<and> get_conversation_history m sid None inc =
            Inr (map (history_entry_of inc) (interactions s))
        \<and> get_conversation_history m sid (Some 0) inc =
            Inr (map (history_entry_of inc) (interactions s)))"
proof -
  have short: "most_recent (nat l) xs = xs" if "int (length xs) \<le> l" for xs :: "InteractionMemory list"
    using that by (simp add: most_recent_def)
  have pos: "get_conversation_history m sid (Some l) inc = Inr (history_reference s l inc)"
    if "map_of (sessions m) sid = Some s" "1 \<le> l"
    using that
    by (simp add: get_conversation_history_def history_reference_def Let_def
        slice_from_neg_most_recent most_recent_map)
  have all: "get_conversation_history m sid (Some l) inc =
               Inr (map (history_entry_of inc) (interactions s))"
    if "map_of (sessions m) sid = Some s" "int (length (interactions s)) \<le> l"
  proof (cases "l = 0")
    case True
    then show ?thesis using that by (simp add: get_conversation_history_def)
  next
    case False
    then have "1 \<le> l" using that(2) by simp
    from pos[OF that(1) this] show ?thesis
      by (simp add: history_reference_def short[OF that(2)])
  qed
  show ?thesis
    using pos all by (auto simp: get_conversation_history_def)
qed

theorem conversation_history_most_recent_witness:
  "get_conversation_history two_topics_memory 9 (Some 1) False = Inr []
   \<and> get_conversation_history two_topics_memory 7 (Some 1) False =
       Inr [history_entry_of False second_interaction]
   \<and> get_conversation_history two_topics_memory 7 (Some 5) False =
       Inr [history_entry_of False first_interaction, history_entry_of False second_interaction]
   \<and> get_conversation_history two_topics_memory 7 None False =
       Inr [history_entry_of False first_interaction, history_entry_of False second_interaction]"
  using conversation_history_most_recent [of two_topics_memory 9 "Some 1" False two_topics_session 1]
    conversation_history_most_recent [of two_topics_memory 7 "Some 1" False two_topics_session 1]
    conversation_history_most_recent [of two_topics_memory 7 "Some 1" False two_topics_session 5]
  by (simp add: two_topics_memory_def two_topics_session_def history_reference_def most_recent_def)

section \<open>Expiry\<close>

lemma cleanup_session_sessions:
  "map_of (sessions (cleanup_session m sid)) = (map_of (sessions m))(sid := None)"
  by (auto simp: cleanup_session_def Let_def delete_conv')

lemma cleanup_session_cache:
  "map_of (performance_cache (cleanup_session m sid)) = (map_of (performance_cache m))(sid := None)"
  by (auto simp: cleanup_session_def Let_def delete_conv')

lemma distinct_sessions_cleanup_session:
  "distinct (map fst (sessions m)) \<Longrightarrow> distinct (map fst (sessions (cleanup_session m sid)))"
  by (auto simp: cleanup_session_def Let_def distinct_delete)

lemma distinct_sessions_cleanup_expired_sessions:
  "distinct (map fst (sessions m)) \<Longrightarrow>
   distinct (map fst (sessions (cleanup_expired_sessions m now)))"
proof -
  have "distinct (map fst (sessions m)) \<Longrightarrow> distinct (map fst (sessions (foldl cleanup_session m ids)))"
    for ids
    by (induction ids arbitrary: m) (simp_all add: distinct_sessions_cleanup_session)
  then show "distinct (map fst (sessions m)) \<Longrightarrow>
      distinct (map fst (sessions (cleanup_expired_sessions m now)))"
    by (simp add: cleanup_expired_sessions_def Let_def)
qed

lemma foldl_cleanup_session_sessions:
  "map_of (sessions (foldl cleanup_session m ids)) k =
     (if k \<in> set ids then None else map_of (sessions m) k)"
  by (induction ids arbitrary: m) (auto simp: cleanup_session_sessions)

lemma foldl_cleanup_session_cache:
  "map_of (performance_cache (foldl cleanup_session m ids)) k =
     (if k \<in> set ids then None else map_of (performance_cache m) k)"
  by (induction ids arbitrary: m) (auto simp: cleanup_session_cache)

lemma expired_ids:
  assumes "distinct (map fst (sessions m))"
  shows "sid \<in> set (map fst (filter (\<lambda>(k, s). start_time s < c) (sessions m)))
           \<longleftrightarrow> (\<exists>s. map_of (sessions m) sid = Some s \<and> start_time s < c)"
  using assms by (auto simp: image_iff)

lemma cleanup_expired_sessions_lookup:
  assumes "distinct (map fst (sessions m))"
  shows "map_of (sessions (cleanup_expired_sessions m now)) sid =
           (if expired m now sid then None else map_of (sessions m) sid)"
    and "map_of (performance_cache (cleanup_expired_sessions m now)) sid =
           (if expired m now sid then None else map_of (performance_cache m) sid)"
  unfolding cleanup_expired_sessions_def Let_def
    foldl_cleanup_session_sessions foldl_cleanup_session_cache expired_ids[OF assms]
  by (auto simp: expired_def split: option.splits)

text \<open>
  Claim C9. On a store whose session dictionary has one entry per key,
  \<^verbatim>\<open>cleanup_expired_sessions\<close> removes exactly the sessions whose start time is older than
  the clock reading minus \<^verbatim>\<open>max_memory_hours\<close>, each with its performance history, and
  leaves every other session and cache entry as it was. In particular, with
  \<^verbatim>\<open>max_memory_hours = 24\<close> a session started 25 hours before the sweep is removed and a
  session started one hour before it is kept.
\<close>

theorem cleanup_expired_sessions_exact:
  assumes "distinct (map fst (sessions m))"
  shows "map_of (sessions (cleanup_expired_sessions m now)) sid =
           (if expired m now sid then None else map_of (sessions m) sid)
       \<and> map_of (performance_cache (cleanup_expired_sessions m now)) sid =
           (if expired m now sid then None else map_of (performance_cache m) sid)
       \<and> (max_memory_hours m = 24 \<and> map_of (sessions m) sid = Some s
            \<and> start_time s = now - hours 25 \<longrightarrow>
          map_of (sessions (cleanup_expired_sessions m now)) sid = None
          \<and> map_of (performance_cache (cleanup_expired_sessions m now)) sid = None)
       \<and> (max_memory_hours m = 24 \<and> map_of (sessions m) sid = Some s
            \<and> start_time s = now - hours 1 \<longrightarrow>
          map_of (sessions (cleanup_expired_sessions m now)) sid = Some s
          \<and> map_of (performance_cache (cleanup_expired_sessions m now)) sid =
              map_of (performance_cache m) sid)"
  unfolding cleanup_expired_sessions_lookup[OF assms]
  by (auto simp: expired_def hours_def)

theorem cleanup_expired_sessions_exact_witness:
  "map_of (sessions (cleanup_expired_sessions aged_memory (hours 100))) 3 = None
   \<and> map_of (performance_cache (cleanup_expired_sessions aged_memory (hours 100))) 3 = None
   \<and> map_of (sessions (cleanup_expired_sessions aged_memory (hours 100))) 4 =
       Some (aged_session 4 (hours 100 - hours 1))
   \<and> map_of (performance_cache (cleanup_expired_sessions aged_memory (hours 100))) 4 =
       Some [example_sample]"
proof -
  have d: "distinct (map fst (sessions aged_memory))"
    by (simp add: aged_memory_def)
  have old: "max_memory_hours aged_memory = 24
      \<and> map_of (sessions aged_memory) 3 = Some (aged_session 3 (hours 100 - hours 25))
      \<and> start_time (aged_session 3 (hours 100 - hours 25)) = hours 100 - hours 25"
    by (simp add: aged_memory_def aged_session_def)
  have young: "max_memory_hours aged_memory = 24
      \<and> map_of (sessions aged_memory) 4 = Some (aged_session 4 (hours 100 - hours 1))
      \<and> start_time (aged_session 4 (hours 100 - hours 1)) = hours 100 - hours 1"
    by (simp add: aged_memory_def aged_session_def)
  have cache: "map_of (performance_cache aged_memory) 4 = Some [example_sample]"
    by (simp add: aged_memory_def)
  have removed:
    "map_of (sessions (cleanup_expired_sessions aged_memory (hours 100))) 3 = None
     \<and> map_of (performance_cache (cleanup_expired_sessions aged_memory (hours 100))) 3 = None"
    using cleanup_expired_sessions_exact
        [OF d, of "hours 100" 3 "aged_session 3 (hours 100 - hours 25)"] old
    by blast
  have kept:
    "map_of (sessions (cleanup_expired_sessions aged_memory (hours 100))) 4 =
       Some (aged_session 4 (hours 100 - hours 1))
     \<and> map_of (performance_cache (cleanup_expired_sessions aged_memory (hours 100))) 4 =
       map_of (performance_cache aged_memory) 4"
    using cleanup_expired_sessions_exact
        [OF d, of "hours 100" 4 "aged_session 4 (hours 100 - hours 1)"] young
    by blast
  show ?thesis
    using removed kept cache by simp
qed

section \<open>Re-initialisation\<close>

text \<open>
  Claim C10. \<^verbatim>\<open>initialize_session\<close> on any session id, present or not, stores a fresh
  session record under it (no interactions, no covered topics, no current question, an
  empty context summary) and leaves the performance cache as it was, so
  \<^verbatim>\<open>get_performance_trends\<close> returns after the call what it returned before it.
\<close>

theorem reinitialize_keeps_performance_cache:
  "map_of (sessions (initialize_session m now sid tp diff)) sid =
     Some \<lparr>session_id = sid, topic = tp, difficulty = diff, start_time = now,
           interactions = [], current_question = None, covered_topics = [],
           performance_trends = [], context_summary = None\<rparr>
   \<and> performance_cache (initialize_session m now sid tp diff) = performance_cache m
   \<and> get_performance_trends (initialize_session m now sid tp diff) sid w =
       get_performance_trends m sid w"
  by (simp add: initialize_session_def update_conv' get_performance_trends_def)

text \<open>Session 7 holds one evaluated interaction and one cached sample; after it is
  initialised again it holds no interaction, and the sample is still returned.\<close>

theorem reinitialize_keeps_performance_cache_witness:
  "map_option (\<lambda>s. length (interactions s)) (map_of (sessions evaluated_memory) 7) = Some 1
   \<and> map_option interactions
       (map_of (sessions (initialize_session evaluated_memory 5 7 ''chat_system'' BEGINNER)) 7) = Some []
   \<and> get_performance_trends (initialize_session evaluated_memory 5 7 ''chat_system'' BEGINNER) 7 10 =
       Inr [example_sample]"
  using reinitialize_keeps_performance_cache [of evaluated_memory 5 7 "''chat_system''" BEGINNER 10]
  by (simp add: evaluated_memory_def get_performance_trends_def slice_from_def)

end
